theory Spec2Isabelle
  imports
    Main
    "HOL-Library.Sublist"
    "HOL-Library.Char_ord"
    "HOL-Library.List_Lexorder"
    "HOL-Library.Multiset"
    "HOL-Library.AList"
begin

section \<open>Search contexts (structs.Context)\<close>

text \<open>
  \<^verbatim>\<open>type Context string\<close>: a context is a Go string, compared with \<^verbatim>\<open>==\<close>.
  Any string is a well-formed context; the named ones are the constants below.
\<close>

type_synonym Context = string

definition Allocs :: Context where "Allocs = ''allocs''"
definition Deployments :: Context where "Deployments = ''deployment''"
definition Evals :: Context where "Evals = ''evals''"
definition Jobs :: Context where "Jobs = ''jobs''"
definition Nodes :: Context where "Nodes = ''nodes''"
definition Namespaces :: Context where "Namespaces = ''namespaces''"
definition Quotas :: Context where "Quotas = ''quotas''"
definition Recommendations :: Context where "Recommendations = ''recommendations''"
definition ScalingPolicies :: Context where "ScalingPolicies = ''scaling_policy''"
definition Plugins :: Context where "Plugins = ''plugins''"
definition Volumes :: Context where "Volumes = ''volumes''"

text \<open>The union context \<^verbatim>\<open>structs.All\<close> (the name \<open>All\<close> is HOL's quantifier).\<close>

definition All_Context :: Context where "All_Context = ''all''"

text \<open>
  Modelled from the spec: the union tag "fuzzy" (the subset of contexts enabled for
  fuzzy search). search_endpoint.go refers to \<^verbatim>\<open>structs.Fuzzy\<close>, whose declaration is
  not among the sources.
\<close>

definition Fuzzy :: Context where "Fuzzy = ''fuzzy''"

definition truncateLimit :: nat where "truncateLimit = 20"

definition ossContexts :: "Context list" where
  "ossContexts =
     [Allocs, Jobs, Nodes, Evals, Deployments, Plugins, Volumes, ScalingPolicies, Namespaces]"

definition fuzzyContexts :: "Context list" where
  "fuzzyContexts = [Nodes, Namespaces, Jobs, Allocs]"

section \<open>Strings\<close>

text \<open>
  Go strings are byte sequences; \<^verbatim>\<open>len\<close> counts bytes, \<^verbatim>\<open><\<close> compares bytewise.
  \<^verbatim>\<open>strings.HasPrefix(s, prefix)\<close> and \<^verbatim>\<open>strings.Contains(s, substr)\<close>:
\<close>

definition HasPrefix :: "string \<Rightarrow> string \<Rightarrow> bool" where
  "HasPrefix s pfx = prefix pfx s"

fun Contains :: "string \<Rightarrow> string \<Rightarrow> bool" where
  "Contains [] substr = (substr = [])"
| "Contains (c # s) substr = (prefix substr (c # s) \<or> Contains s substr)"

text \<open>\<^verbatim>\<open>strings.Count(prefix, "-")\<close>: the number of hyphen bytes.\<close>

definition CountHyphens :: "string \<Rightarrow> nat" where
  "CountHyphens s = count_list s (CHR ''-'')"

section \<open>Identifier normalizer\<close>

text \<open>
  \<^verbatim>\<open>roundUUIDDownIfOdd\<close>. When \<open>l\<close> is odd the prefix is not empty, so the slice
  \<^verbatim>\<open>prefix[:len(prefix)-1]\<close> is in range.
\<close>

definition roundUUIDDownIfOdd :: "string \<Rightarrow> Context \<Rightarrow> string" where
  "roundUUIDDownIfOdd pfx context =
     (if context = Jobs then pfx
      else
        let numHyphens = CountHyphens pfx;
            l = length pfx - numHyphens
        in if l mod 2 = 0 then pfx else take (length pfx - 1) pfx)"

section \<open>Errors\<close>

text \<open>
  A Go \<^verbatim>\<open>error\<close> value: the sentinel \<^verbatim>\<open>structs.ErrPermissionDenied\<close>, or an error
  of a collaborator (store, token resolution, pattern compiler) with its message.
  \<open>Error\<close> is the method \<^verbatim>\<open>err.Error()\<close>.
\<close>

datatype error = ErrPermissionDenied | Err string

fun Error :: "error \<Rightarrow> string" where
  "Error ErrPermissionDenied = ''Permission denied''"
| "Error (Err msg) = msg"

section \<open>Resource records and iterators\<close>

text \<open>
  The records an iterator yields, as the type switches of \<^verbatim>\<open>getMatches\<close> and
  \<^verbatim>\<open>getFuzzyMatches\<close> see them: each constructor carries the fields those functions
  read (\<open>ID\<close>, then \<open>Name\<close> where the record has one). \<open>Other\<close> is a value of any other
  dynamic type.
\<close>

datatype 'x Raw =
    Job string string
  | Evaluation string
  | Allocation string string
  | Node string string
  | Deployment string
  | CSIPlugin string
  | CSIVolume string
  | ScalingPolicy string
  | Namespace string
  | Other 'x

text \<open>
  A \<^verbatim>\<open>memdb.ResultIterator\<close> is the list of records it has yet to yield. \<^verbatim>\<open>Next()\<close>
  returns the next record, or nil (\<open>None\<close>) once exhausted, and nil again on every
  later call.
\<close>

definition Next :: "'a list \<Rightarrow> 'a option \<times> 'a list" where
  "Next iter = (case iter of [] \<Rightarrow> (None, []) | raw # rest \<Rightarrow> (Some raw, rest))"

text \<open>
  \<^verbatim>\<open>memdb.NewFilterIterator(iter, f)\<close>: \<^verbatim>\<open>Next()\<close> skips every record on which the
  filter function returns true.
\<close>

definition NewFilterIterator :: "'a list \<Rightarrow> ('a \<Rightarrow> bool) \<Rightarrow> 'a list" where
  "NewFilterIterator iter f = filter (\<lambda>v. \<not> f v) iter"

section \<open>Bounded collector (getMatches)\<close>

text \<open>
  The type switch of \<^verbatim>\<open>getMatches\<close>: the identifier of a record, \<open>None\<close> on the
  branch that logs and continues. \<open>gem\<close> is \<^verbatim>\<open>getEnterpriseMatch\<close>, which is not among
  the sources and is taken as a parameter.
\<close>

fun matchID :: "('x \<Rightarrow> string option) \<Rightarrow> 'x Raw \<Rightarrow> string option" where
  "matchID gem (Job ID Name) = Some ID"
| "matchID gem (Evaluation ID) = Some ID"
| "matchID gem (Allocation ID Name) = Some ID"
| "matchID gem (Node ID Name) = Some ID"
| "matchID gem (Deployment ID) = Some ID"
| "matchID gem (CSIPlugin ID) = Some ID"
| "matchID gem (CSIVolume ID) = Some ID"
| "matchID gem (ScalingPolicy ID) = Some ID"
| "matchID gem (Namespace Name) = Some Name"
| "matchID gem (Other t) = gem t"

text \<open>
  The loop \<^verbatim>\<open>for i := 0; i < truncateLimit; i++\<close> of \<^verbatim>\<open>getMatches\<close>, from counter
  \<open>i\<close>, returning the matches and the iterator as the loop leaves it. \<^verbatim>\<open>continue\<close>
  still increments \<open>i\<close>; \<^verbatim>\<open>break\<close> leaves the loop.
\<close>

function getMatches_loop ::
  "('x \<Rightarrow> string option) \<Rightarrow> string \<Rightarrow> nat \<Rightarrow> 'x Raw list \<Rightarrow> string list
     \<Rightarrow> string list \<times> 'x Raw list" where
  "getMatches_loop gem pfx i iter matches =
     (if i < truncateLimit then
        (case Next iter of
           (None, iter') \<Rightarrow> (matches, iter')
         | (Some raw, iter') \<Rightarrow>
             (case matchID gem raw of
                None \<Rightarrow> getMatches_loop gem pfx (i + 1) iter' matches
              | Some ident \<Rightarrow>
                  if \<not> HasPrefix ident pfx then getMatches_loop gem pfx (i + 1) iter' matches
                  else getMatches_loop gem pfx (i + 1) iter' (matches @ [ident])))
      else (matches, iter))"
  by pat_completeness auto
termination
  by (relation "measure (\<lambda>(gem, pfx, i, iter, matches). truncateLimit - i)") auto

definition getMatches ::
  "('x \<Rightarrow> string option) \<Rightarrow> 'x Raw list \<Rightarrow> string \<Rightarrow> string list \<times> bool" where
  "getMatches gem iter pfx =
     (case getMatches_loop gem pfx 0 iter [] of
        (matches, iter') \<Rightarrow> (matches, fst (Next iter') \<noteq> None))"

section \<open>Fuzzy ranker (getFuzzyMatches)\<close>

text \<open>
  Go's \<^verbatim>\<open>regexp\<close> package is a collaborator outside the repository; the ranker takes
  it as a parameter. \<open>Compile\<close> is \<^verbatim>\<open>regexp.Compile\<close> (an error when the pattern does
  not parse). \<open>FindStringIndex\<close> is the method of that name: the location
  \<open>(start, end)\<close> of the leftmost match, \<open>None\<close> for Go's nil ("no match").
\<close>

record 're RegexpLib =
  Compile :: "string \<Rightarrow> error + 're"
  FindStringIndex :: "'re \<Rightarrow> string \<Rightarrow> (nat \<times> nat) option"

text \<open>A call that either returns or panics.\<close>

datatype 'a may_panic = Done 'a | Panic

text \<open>\<^verbatim>\<open>regexp.MustCompile\<close>: like \<open>Compile\<close>, but panics if the expression cannot be parsed.\<close>

definition MustCompile :: "'re RegexpLib \<Rightarrow> string \<Rightarrow> 're may_panic" where
  "MustCompile lib str = (case Compile lib str of Inl err \<Rightarrow> Panic | Inr re \<Rightarrow> Done re)"

text \<open>The local struct \<^verbatim>\<open>match\<close> (its field \<^verbatim>\<open>value\<close> is \<open>val\<close> here).\<close>

record match =
  val :: string
  pos :: nat

text \<open>
  The type switch of \<^verbatim>\<open>getFuzzyMatches\<close>: it has no default branch, so \<^verbatim>\<open>name\<close> stays
  the empty string for any other record.
\<close>

fun fuzzyName :: "'x Raw \<Rightarrow> string" where
  "fuzzyName (Node ID Name) = Name"
| "fuzzyName (Namespace Name) = Name"
| "fuzzyName (Job ID Name) = Name"
| "fuzzyName (Allocation ID Name) = Name"
| "fuzzyName _ = []"

function getFuzzyMatches_loop ::
  "'re RegexpLib \<Rightarrow> 're \<Rightarrow> nat \<Rightarrow> 'x Raw list \<Rightarrow> match list
     \<Rightarrow> match list \<times> 'x Raw list" where
  "getFuzzyMatches_loop lib re i iter matches =
     (if i < truncateLimit then
        (case Next iter of
           (None, iter') \<Rightarrow> (matches, iter')
         | (Some raw, iter') \<Rightarrow>
             (let name = fuzzyName raw in
              case FindStringIndex lib re name of
                Some m \<Rightarrow>
                  getFuzzyMatches_loop lib re (i + 1) iter'
                    (matches @ [\<lparr>val = name, pos = fst m\<rparr>])
              | None \<Rightarrow> getFuzzyMatches_loop lib re (i + 1) iter' matches))
      else (matches, iter))"
  by pat_completeness auto
termination
  by (relation "measure (\<lambda>(lib, re, i, iter, matches). truncateLimit - i)") auto

text \<open>The \<^verbatim>\<open>less\<close> function handed to \<^verbatim>\<open>sort.Slice\<close>.\<close>

definition match_less :: "match \<Rightarrow> match \<Rightarrow> bool" where
  "match_less A B =
     (if pos A < pos B then True
      else if pos B < pos A then False
      else if length (val A) < length (val B) then True
      else if length (val B) < length (val A) then False
      else val A < val B)"

text \<open>
  \<^verbatim>\<open>sort.Slice(matches, less)\<close> sorts the slice by \<open>less\<close> and promises nothing about
  the order of elements neither of which is less than the other. It is modelled as an
  insertion sort; under \<open>match_less\<close> only identical matches are tied, so every
  sorting routine returns the same slice (lemma \<open>match_sorted_unique\<close> below).
\<close>

fun insert_by :: "('a \<Rightarrow> 'a \<Rightarrow> bool) \<Rightarrow> 'a \<Rightarrow> 'a list \<Rightarrow> 'a list" where
  "insert_by lt x [] = [x]"
| "insert_by lt x (y # ys) = (if lt x y then x # y # ys else y # insert_by lt x ys)"

definition sort_Slice :: "'a list \<Rightarrow> ('a \<Rightarrow> 'a \<Rightarrow> bool) \<Rightarrow> 'a list" where
  "sort_Slice xs lt = foldr (insert_by lt) xs []"

definition getFuzzyMatches ::
  "'re RegexpLib \<Rightarrow> 'x Raw list \<Rightarrow> 're \<Rightarrow> string list \<times> bool" where
  "getFuzzyMatches lib iter re =
     (case getFuzzyMatches_loop lib re 0 iter [] of
        (matches, iter') \<Rightarrow>
          (let sorted_matches = sort_Slice matches match_less;
               results = map val sorted_matches
           in (results, fst (Next iter') \<noteq> None)))"

section \<open>Collaborators of the endpoint\<close>

text \<open>
  The access-control object \<^verbatim>\<open>*acl.ACL\<close>, by the answers it gives; a nil pointer is
  \<open>None\<close> of \<open>ACL option\<close>. The source under study calls \<open>AllowNamespace\<close> only; the
  other two capabilities are the ones the spec's access gate asks for.
\<close>

record ACL =
  AllowNamespace :: "string \<Rightarrow> bool"
  AllowNodeRead :: bool
  AllowReadJob :: "string \<Rightarrow> bool"

text \<open>
  The state store \<^verbatim>\<open>*state.StateStore\<close>, by the methods the endpoint calls on a
  snapshot (the watch set is not modelled). \<open>NamespacesByNamePrefix\<close> yields the names
  of the namespace records: that table holds \<^verbatim>\<open>*structs.Namespace\<close> values only, which
  is what the type assertion in \<^verbatim>\<open>namespaceFilter\<close> relies on.
\<close>

record 'x StateStore =
  JobsByIDPrefix :: "string \<Rightarrow> string \<Rightarrow> error + 'x Raw list"
  EvalsByIDPrefix :: "string \<Rightarrow> string \<Rightarrow> error + 'x Raw list"
  AllocsByIDPrefix :: "string \<Rightarrow> string \<Rightarrow> error + 'x Raw list"
  NodesByIDPrefix :: "string \<Rightarrow> error + 'x Raw list"
  DeploymentsByIDPrefix :: "string \<Rightarrow> string \<Rightarrow> error + 'x Raw list"
  CSIPluginsByIDPrefix :: "string \<Rightarrow> error + 'x Raw list"
  ScalingPoliciesByIDPrefix :: "string \<Rightarrow> string \<Rightarrow> error + 'x Raw list"
  CSIVolumesByIDPrefix :: "string \<Rightarrow> string \<Rightarrow> error + 'x Raw list"
  NamespacesByNamePrefix :: "string \<Rightarrow> error + string list"
  Index :: "string \<Rightarrow> error + nat"

text \<open>
  The package-level names that search_endpoint.go uses and that are declared in a file
  not among the sources (the build-specific half of the package): they are parameters
  of the model.
\<close>

record 'x Package =
  allContexts :: "Context list"
  sufficientSearchPerms :: "ACL option \<Rightarrow> string \<Rightarrow> Context \<Rightarrow> bool"
  searchContexts :: "ACL option \<Rightarrow> string \<Rightarrow> Context \<Rightarrow> Context list"
  getEnterpriseMatch :: "'x \<Rightarrow> string option"
  getEnterpriseResourceIter ::
    "Context \<Rightarrow> ACL option \<Rightarrow> string \<Rightarrow> string \<Rightarrow> 'x StateStore \<Rightarrow> error + 'x Raw list"
  contextToIndex :: "Context \<Rightarrow> string"

section \<open>Requests and responses\<close>

text \<open>
  \<^verbatim>\<open>QueryOptions\<close> is embedded in both requests; \<open>RequestNamespace\<close> is the result of
  the method of that name. The field \<^verbatim>\<open>Context\<close> of \<^verbatim>\<open>FuzzySearchRequest\<close> is
  \<open>FuzzyContext\<close> here. \<open>QueryMeta_Index\<close> is \<^verbatim>\<open>reply.QueryMeta.Index\<close>, a uint64 that
  is only compared and assigned.
\<close>

record QueryOptions =
  AuthToken :: string
  RequestNamespace :: string

record SearchRequest = QueryOptions +
  Prefix :: string
  Context :: Context

record FuzzySearchRequest = QueryOptions +
  Text :: string
  FuzzyContext :: Context

record SearchResponse =
  Matches :: "Context \<rightharpoonup> string list"
  Truncations :: "Context \<rightharpoonup> bool"
  QueryMeta_Index :: nat

text \<open>
  The server \<^verbatim>\<open>s.srv\<close>. \<open>forward\<close> is \<open>None\<close> when the request is handled on this
  server (\<^verbatim>\<open>done = false\<close>), and otherwise the reply and error of the server it was
  forwarded to.
\<close>

record Server =
  forward :: "string \<Rightarrow> (SearchResponse \<times> error option) option"
  ResolveToken :: "string \<Rightarrow> error + ACL option"

text \<open>What the endpoint asks of the store, in order.\<close>

datatype store_call = OpenIterator Context string string | ReadIndex string

section \<open>Context catalog\<close>

definition expandContext :: "'x Package \<Rightarrow> Context \<Rightarrow> Context list" where
  "expandContext pkg context =
     (if context = All_Context then allContexts pkg
      else if context = Fuzzy then fuzzyContexts
      else [context])"

section \<open>Iterators per context\<close>

text \<open>
  \<^verbatim>\<open>namespaceFilter\<close>. The type assertion \<^verbatim>\<open>v.(*structs.Namespace)\<close> holds for every
  record of the iterator it is applied to (\<open>map Namespace names\<close> in
  \<open>getResourceIter\<close>); the last branch is never reached.
\<close>

definition namespaceFilter :: "ACL \<Rightarrow> 'x Raw \<Rightarrow> bool" where
  "namespaceFilter aclObj v =
     (case v of Namespace Name \<Rightarrow> \<not> AllowNamespace aclObj Name | _ \<Rightarrow> False)"

definition getResourceIter ::
  "'x Package \<Rightarrow> Context \<Rightarrow> ACL option \<Rightarrow> string \<Rightarrow> string \<Rightarrow> 'x StateStore
     \<Rightarrow> error + 'x Raw list" where
  "getResourceIter pkg context aclObj namespace pfx state =
     (if context = Jobs then JobsByIDPrefix state namespace pfx
      else if context = Evals then EvalsByIDPrefix state namespace pfx
      else if context = Allocs then AllocsByIDPrefix state namespace pfx
      else if context = Nodes then NodesByIDPrefix state pfx
      else if context = Deployments then DeploymentsByIDPrefix state namespace pfx
      else if context = Plugins then CSIPluginsByIDPrefix state pfx
      else if context = ScalingPolicies then ScalingPoliciesByIDPrefix state namespace pfx
      else if context = Volumes then CSIVolumesByIDPrefix state namespace pfx
      else if context = Namespaces then
        (case NamespacesByNamePrefix state pfx of
           Inl err \<Rightarrow> Inl err
         | Inr names \<Rightarrow>
             (let iter = map Namespace names in
              case aclObj of
                None \<Rightarrow> Inr iter
              | Some a \<Rightarrow> Inr (NewFilterIterator iter (namespaceFilter a))))
      else getEnterpriseResourceIter pkg context aclObj namespace pfx state)"

section \<open>The index loop\<close>

text \<open>
  The last loop of both query functions: the response index becomes the maximum of its
  old value and the index of every context; an error of the store aborts.
\<close>

fun setIndex ::
  "'x Package \<Rightarrow> 'x StateStore \<Rightarrow> Context list \<Rightarrow> SearchResponse \<Rightarrow> store_call list
     \<Rightarrow> error option \<times> SearchResponse \<times> store_call list" where
  "setIndex pkg state [] reply calls = (None, reply, calls)"
| "setIndex pkg state (ctx # contexts) reply calls =
     (let key = contextToIndex pkg ctx;
          calls' = calls @ [ReadIndex key]
      in case Index state key of
           Inl err \<Rightarrow> (Some err, reply, calls')
         | Inr index \<Rightarrow>
             setIndex pkg state contexts
               (if index > QueryMeta_Index reply then reply\<lparr>QueryMeta_Index := index\<rparr> else reply)
               calls')"

text \<open>
  \<^verbatim>\<open>blockingRPC\<close> with the empty \<^verbatim>\<open>QueryOptions\<close> both endpoints hand it (no minimum
  index to wait for): the query function runs once, on the current snapshot.
\<close>

definition blockingRPC :: "('s \<Rightarrow> 'r) \<Rightarrow> 's \<Rightarrow> 'r" where
  "blockingRPC run state = run state"

section \<open>PrefixSearch\<close>

text \<open>The \<^verbatim>\<open>switch\<close> on the message of a store error: the messages that are ignored.\<close>

definition ignoredError :: "string \<Rightarrow> bool" where
  "ignoredError e =
     (Contains e ''Invalid UUID: encoding/hex'' \<or>
      Contains e ''UUID have 36 characters'' \<or>
      Contains e ''must be even length'' \<or>
      Contains e ''UUID should have maximum of 4'')"

text \<open>
  The first loop of the query function. \<open>iters\<close> is the Go map from context to
  iterator, as an association list with distinct keys; \<open>calls\<close> records each call of
  \<^verbatim>\<open>getResourceIter\<close>.
\<close>

fun PrefixSearch_iters ::
  "'x Package \<Rightarrow> 'x StateStore \<Rightarrow> ACL option \<Rightarrow> string \<Rightarrow> SearchRequest \<Rightarrow> Context list
     \<Rightarrow> (Context \<times> 'x Raw list) list \<Rightarrow> store_call list
     \<Rightarrow> (error + (Context \<times> 'x Raw list) list) \<times> store_call list" where
  "PrefixSearch_iters pkg state aclObj namespace args [] iters calls = (Inr iters, calls)"
| "PrefixSearch_iters pkg state aclObj namespace args (ctx # contexts) iters calls =
     (let q = roundUUIDDownIfOdd (Prefix args) (Context args);
          calls' = calls @ [OpenIterator ctx namespace q]
      in case getResourceIter pkg ctx aclObj namespace q state of
           Inl err \<Rightarrow>
             if ignoredError (Error err)
             then PrefixSearch_iters pkg state aclObj namespace args contexts iters calls'
             else (Inl err, calls')
         | Inr iter \<Rightarrow>
             PrefixSearch_iters pkg state aclObj namespace args contexts
               (AList.update ctx iter iters) calls')"

text \<open>The second loop: \<^verbatim>\<open>for k, v := range iters\<close>.\<close>

fun PrefixSearch_matches ::
  "'x Package \<Rightarrow> string \<Rightarrow> (Context \<times> 'x Raw list) list \<Rightarrow> SearchResponse \<Rightarrow> SearchResponse" where
  "PrefixSearch_matches pkg pfx [] reply = reply"
| "PrefixSearch_matches pkg pfx ((k, v) # iters) reply =
     (case getMatches (getEnterpriseMatch pkg) v pfx of
        (res, isTrunc) \<Rightarrow>
          PrefixSearch_matches pkg pfx iters
            (reply\<lparr>Matches := (Matches reply)(k \<mapsto> res),
                   Truncations := (Truncations reply)(k \<mapsto> isTrunc)\<rparr>))"

definition PrefixSearch_run ::
  "'x Package \<Rightarrow> ACL option \<Rightarrow> string \<Rightarrow> SearchRequest \<Rightarrow> SearchResponse \<Rightarrow> 'x StateStore
     \<Rightarrow> error option \<times> SearchResponse \<times> store_call list" where
  "PrefixSearch_run pkg aclObj namespace args reply state =
     (let contexts = searchContexts pkg aclObj namespace (Context args)
      in case PrefixSearch_iters pkg state aclObj namespace args contexts [] [] of
           (Inl err, calls) \<Rightarrow> (Some err, reply, calls)
         | (Inr iters, calls) \<Rightarrow>
             setIndex pkg state contexts (PrefixSearch_matches pkg (Prefix args) iters reply) calls)"

definition PrefixSearch ::
  "Server \<Rightarrow> 'x Package \<Rightarrow> 'x StateStore \<Rightarrow> SearchRequest \<Rightarrow> SearchResponse
     \<Rightarrow> error option \<times> SearchResponse \<times> store_call list" where
  "PrefixSearch srv pkg state args reply =
     (case forward srv ''Search.PrefixSearch'' of
        Some (remote, err) \<Rightarrow> (err, remote, [])
      | None \<Rightarrow>
          (case ResolveToken srv (AuthToken args) of
             Inl err \<Rightarrow> (Some err, reply, [])
           | Inr aclObj \<Rightarrow>
               (let namespace = RequestNamespace args in
                if \<not> sufficientSearchPerms pkg aclObj namespace (Context args)
                then (Some ErrPermissionDenied, reply, [])
                else
                  blockingRPC
                    (PrefixSearch_run pkg aclObj namespace args
                       (reply\<lparr>Matches := Map.empty, Truncations := Map.empty\<rparr>))
                    state)))"

section \<open>FuzzySearch\<close>

fun FuzzySearch_iters ::
  "'x Package \<Rightarrow> 'x StateStore \<Rightarrow> ACL option \<Rightarrow> string \<Rightarrow> Context list
     \<Rightarrow> (Context \<times> 'x Raw list) list \<Rightarrow> store_call list
     \<Rightarrow> (error + (Context \<times> 'x Raw list) list) \<times> store_call list" where
  "FuzzySearch_iters pkg state aclObj namespace [] iters calls = (Inr iters, calls)"
| "FuzzySearch_iters pkg state aclObj namespace (ctx # contexts) iters calls =
     (let noPrefix = [];
          calls' = calls @ [OpenIterator ctx namespace noPrefix]
      in case getResourceIter pkg ctx aclObj namespace noPrefix state of
           Inl err \<Rightarrow> (Inl err, calls')
         | Inr iter \<Rightarrow>
             FuzzySearch_iters pkg state aclObj namespace contexts
               (AList.update ctx iter iters) calls')"

fun FuzzySearch_matches ::
  "'re RegexpLib \<Rightarrow> 're \<Rightarrow> (Context \<times> 'x Raw list) list \<Rightarrow> SearchResponse \<Rightarrow> SearchResponse" where
  "FuzzySearch_matches lib re [] reply = reply"
| "FuzzySearch_matches lib re ((k, v) # iters) reply =
     (case getFuzzyMatches lib v re of
        (res, isTrunc) \<Rightarrow>
          FuzzySearch_matches lib re iters
            (reply\<lparr>Matches := (Matches reply)(k \<mapsto> res),
                   Truncations := (Truncations reply)(k \<mapsto> isTrunc)\<rparr>))"

definition FuzzySearch_run ::
  "'re RegexpLib \<Rightarrow> 'x Package \<Rightarrow> ACL option \<Rightarrow> string \<Rightarrow> FuzzySearchRequest \<Rightarrow> SearchResponse
     \<Rightarrow> 'x StateStore \<Rightarrow> error option may_panic \<times> SearchResponse \<times> store_call list" where
  "FuzzySearch_run lib pkg aclObj namespace args reply state =
     (let contexts = searchContexts pkg aclObj namespace Fuzzy
      in case FuzzySearch_iters pkg state aclObj namespace contexts [] [] of
           (Inl err, calls) \<Rightarrow> (Done (Some err), reply, calls)
         | (Inr iters, calls) \<Rightarrow>
             (case MustCompile lib (Text args) of
                Panic \<Rightarrow> (Panic, reply, calls)
              | Done re \<Rightarrow>
                  (case setIndex pkg state contexts (FuzzySearch_matches lib re iters reply) calls of
                     (err, reply', calls') \<Rightarrow> (Done err, reply', calls'))))"

definition FuzzySearch ::
  "Server \<Rightarrow> 're RegexpLib \<Rightarrow> 'x Package \<Rightarrow> 'x StateStore \<Rightarrow> FuzzySearchRequest \<Rightarrow> SearchResponse
     \<Rightarrow> error option may_panic \<times> SearchResponse \<times> store_call list" where
  "FuzzySearch srv lib pkg state args reply =
     (case forward srv ''Search.FuzzySearch'' of
        Some (remote, err) \<Rightarrow> (Done err, remote, [])
      | None \<Rightarrow>
          (case ResolveToken srv (AuthToken args) of
             Inl err \<Rightarrow> (Done (Some err), reply, [])
           | Inr aclObj \<Rightarrow>
               (let namespace = RequestNamespace args in
                if \<not> sufficientSearchPerms pkg aclObj namespace Fuzzy
                then (Done (Some ErrPermissionDenied), reply, [])
                else
                  blockingRPC
                    (FuzzySearch_run lib pkg aclObj namespace args
                       (reply\<lparr>Matches := Map.empty, Truncations := Map.empty\<rparr>))
                    state)))"

section \<open>A fragment of Go's pattern syntax\<close>

text \<open>
  The pattern compiler is Go's standard library, outside the repository. For concrete
  inputs a library is needed; \<open>goRegexp\<close> follows the documentation of
  \<^verbatim>\<open>regexp\<close> and \<^verbatim>\<open>regexp/syntax\<close> on the patterns built from ASCII literal characters,
  alternation \<^verbatim>\<open>|\<close> and groups \<^verbatim>\<open>( )\<close>: a group must be closed and a \<^verbatim>\<open>)\<close> must
  have been opened, the match found is the leftmost one, and among the matches at
  that position the first that a backtracking search finds. On any other pattern
  (one with another metacharacter or a byte outside ASCII) \<open>goRegexp\<close> answers
  \<open>notInFragment\<close>, which says nothing about Go; no statement below evaluates
  \<open>goRegexp\<close> on such a pattern.
\<close>

datatype Regexp =
    EmptyMatch
  | Literal char
  | Concat Regexp Regexp
  | Alternate Regexp Regexp
  | Capture Regexp

text \<open>The characters \<^verbatim>\<open>\.+*?()|[]{}^$\<close> that \<^verbatim>\<open>regexp.QuoteMeta\<close> escapes.\<close>

definition metaChars :: "char list" where
  "metaChars = CHR 0x5C # ''.+*?()|[]{}^$''"

definition literalChar :: "char \<Rightarrow> bool" where
  "literalChar c = ((of_char c :: nat) < 128 \<and> c \<notin> set metaChars)"

definition notInFragment :: error where
  "notInFragment = Err ''pattern outside the modelled fragment''"

definition concatenation :: "Regexp list \<Rightarrow> Regexp" where
  "concatenation items = foldr Concat items EmptyMatch"

definition alternation :: "Regexp list \<Rightarrow> Regexp list \<Rightarrow> Regexp" where
  "alternation alts items = foldr Alternate alts (concatenation items)"

text \<open>
  The parser reads the pattern left to right; \<open>alts\<close> are the finished alternatives
  and \<open>items\<close> the pieces of the current one, inside the innermost open group;
  \<open>stack\<close> holds the same for each enclosing group.
\<close>

fun parse ::
  "string \<Rightarrow> Regexp list \<Rightarrow> Regexp list \<Rightarrow> (Regexp list \<times> Regexp list) list
     \<Rightarrow> error + Regexp" where
  "parse [] alts items stack =
     (if stack = [] then Inr (alternation alts items)
      else Inl (Err ''error parsing regexp: missing closing )''))"
| "parse (c # cs) alts items stack =
     (if c = CHR ''('' then parse cs [] [] ((alts, items) # stack)
      else if c = CHR '')'' then
        (case stack of
           [] \<Rightarrow> Inl (Err ''error parsing regexp: unexpected )'')
         | (alts', items') # stack' \<Rightarrow>
             parse cs alts' (items' @ [Capture (alternation alts items)]) stack')
      else if c = CHR ''|'' then parse cs (alts @ [concatenation items]) [] stack
      else if literalChar c then parse cs alts (items @ [Literal c]) stack
      else Inl notInFragment)"

text \<open>
  The inputs left over after each way of matching the expression at the start of the
  input, in the order a backtracking search finds them.
\<close>

fun matchPrefix :: "Regexp \<Rightarrow> string \<Rightarrow> string list" where
  "matchPrefix EmptyMatch s = [s]"
| "matchPrefix (Literal c) s = (case s of [] \<Rightarrow> [] | x # xs \<Rightarrow> if x = c then [xs] else [])"
| "matchPrefix (Concat a b) s = concat (map (matchPrefix b) (matchPrefix a s))"
| "matchPrefix (Alternate a b) s = matchPrefix a s @ matchPrefix b s"
| "matchPrefix (Capture a) s = matchPrefix a s"

fun findFrom :: "Regexp \<Rightarrow> nat \<Rightarrow> string \<Rightarrow> (nat \<times> nat) option" where
  "findFrom re i [] = (case matchPrefix re [] of [] \<Rightarrow> None | r # _ \<Rightarrow> Some (i, i))"
| "findFrom re i (c # s) =
     (case matchPrefix re (c # s) of
        [] \<Rightarrow> findFrom re (Suc i) s
      | r # _ \<Rightarrow> Some (i, i + (length (c # s) - length r)))"

definition goRegexp :: "Regexp RegexpLib" where
  "goRegexp = \<lparr>Compile = (\<lambda>str. parse str [] [] []), FindStringIndex = (\<lambda>re s. findFrom re 0 s)\<rparr>"

text \<open>
  The literal reading of a text that the spec describes: \<^verbatim>\<open>strings.Index(s, substr)\<close>,
  the index of the first occurrence of \<open>substr\<close> in \<open>s\<close>.
\<close>

fun firstOccurrence :: "string \<Rightarrow> string \<Rightarrow> nat option" where
  "firstOccurrence [] substr = (if substr = [] then Some 0 else None)"
| "firstOccurrence (c # s) substr =
     (if prefix substr (c # s) then Some 0 else map_option Suc (firstOccurrence s substr))"

section \<open>A store, a package and a server for concrete requests\<close>

text \<open>
  Modelled from the spec: the store contract of section 6, which the sources do not
  contain. \<open>specStore tables index\<close> keeps one table of records per context, each in
  identifier order, all in the namespace of the request. An iterator yields the records
  of the table whose identifier starts with the prefix. The job and namespace tables
  are keyed by free-form strings; the other tables are keyed by hex identifiers and
  raise a format error on a malformed prefix, with the messages that \<open>ignoredError\<close>
  names.
\<close>

definition byPrefix :: "'x Raw list \<Rightarrow> string \<Rightarrow> 'x Raw list" where
  "byPrefix table pfx =
     filter (\<lambda>r. case matchID (\<lambda>t. None) r of None \<Rightarrow> False | Some ident \<Rightarrow> HasPrefix ident pfx) table"

definition hexDigit :: "char \<Rightarrow> bool" where
  "hexDigit c = (c \<in> set ''0123456789abcdefABCDEF'')"

definition uuidFormatError :: "string \<Rightarrow> error option" where
  "uuidFormatError pfx =
     (if length pfx > 36 then Some (Err ''Invalid UUID length. UUID have 36 characters'')
      else if CountHyphens pfx > 4 then Some (Err ''UUID should have maximum of 4 hyphens'')
      else if (length pfx - CountHyphens pfx) mod 2 \<noteq> 0
        then Some (Err ''Input (without hyphens) must be even length'')
      else if \<not> list_all hexDigit (filter (\<lambda>c. c \<noteq> CHR ''-'') pfx)
        then Some (Err ''Invalid UUID: encoding/hex: invalid byte'')
      else None)"

definition byUUIDPrefix :: "'x Raw list \<Rightarrow> string \<Rightarrow> error + 'x Raw list" where
  "byUUIDPrefix table pfx =
     (case uuidFormatError pfx of Some err \<Rightarrow> Inl err | None \<Rightarrow> Inr (byPrefix table pfx))"

definition specStore :: "(Context \<Rightarrow> 'x Raw list) \<Rightarrow> (string \<Rightarrow> nat) \<Rightarrow> 'x StateStore" where
  "specStore tables index =
     \<lparr>JobsByIDPrefix = (\<lambda>namespace pfx. Inr (byPrefix (tables Jobs) pfx)),
      EvalsByIDPrefix = (\<lambda>namespace pfx. byUUIDPrefix (tables Evals) pfx),
      AllocsByIDPrefix = (\<lambda>namespace pfx. byUUIDPrefix (tables Allocs) pfx),
      NodesByIDPrefix = (\<lambda>pfx. byUUIDPrefix (tables Nodes) pfx),
      DeploymentsByIDPrefix = (\<lambda>namespace pfx. byUUIDPrefix (tables Deployments) pfx),
      CSIPluginsByIDPrefix = (\<lambda>pfx. byUUIDPrefix (tables Plugins) pfx),
      ScalingPoliciesByIDPrefix = (\<lambda>namespace pfx. byUUIDPrefix (tables ScalingPolicies) pfx),
      CSIVolumesByIDPrefix = (\<lambda>namespace pfx. byUUIDPrefix (tables Volumes) pfx),
      NamespacesByNamePrefix =
        (\<lambda>pfx. Inr (filter (\<lambda>name. HasPrefix name pfx) (map fuzzyName (tables Namespaces)))),
      Index = (\<lambda>key. Inr (index key))\<rparr>"

text \<open>
  Modelled from the spec: the package-level names missing from the sources, for the
  open-source build. Section 4.1: "all" expands to the full set of top-level contexts
  (no extension is registered). Section 4.2: a nil access-control object admits every
  request; otherwise the node context needs the read-node capability, every other
  context the read-job capability of the namespace, and a union context at least one
  of the two. Section 2: the contexts searched are the expansion of the requested one.
  Sections 7 and 9: the extension hooks are the no-op implementation (no identifier,
  no matches). Section 6: a context's index key is the context.
\<close>

definition specPackage_base :: "'x Package" where
  "specPackage_base =
     \<lparr>allContexts = ossContexts,
      sufficientSearchPerms =
        (\<lambda>aclObj namespace context.
           case aclObj of
             None \<Rightarrow> True
           | Some a \<Rightarrow>
               if context = Nodes then AllowNodeRead a
               else if context = All_Context \<or> context = Fuzzy
                 then AllowNodeRead a \<or> AllowReadJob a namespace
               else AllowReadJob a namespace),
      searchContexts = (\<lambda>aclObj namespace context. []),
      getEnterpriseMatch = (\<lambda>t. None),
      getEnterpriseResourceIter = (\<lambda>context aclObj namespace pfx state. Inr []),
      contextToIndex = (\<lambda>context. context)\<rparr>"

definition specPackage :: "'x Package" where
  "specPackage =
     specPackage_base\<lparr>searchContexts :=
       (\<lambda>aclObj namespace context. expandContext (specPackage_base :: 'x Package) context)\<rparr>"

text \<open>
  A server that handles every request itself; the token \<open>''anonymous''\<close> resolves to
  an access-control object without any capability, every other token to nil (access
  control disabled).
\<close>

definition denyAll :: ACL where
  "denyAll = \<lparr>AllowNamespace = (\<lambda>name. False), AllowNodeRead = False, AllowReadJob = (\<lambda>namespace. False)\<rparr>"

definition localServer :: Server where
  "localServer =
     \<lparr>forward = (\<lambda>method. None),
      ResolveToken = (\<lambda>token. if token = ''anonymous'' then Inr (Some denyAll) else Inr None)\<rparr>"

definition emptyReply :: SearchResponse where
  "emptyReply = \<lparr>Matches = Map.empty, Truncations = Map.empty, QueryMeta_Index = 0\<rparr>"

definition prefixRequest :: "string \<Rightarrow> Context \<Rightarrow> SearchRequest" where
  "prefixRequest pfx context =
     \<lparr>AuthToken = [], RequestNamespace = ''default'', Prefix = pfx, Context = context\<rparr>"

definition fuzzyRequest :: "string \<Rightarrow> FuzzySearchRequest" where
  "fuzzyRequest str =
     \<lparr>AuthToken = [], RequestNamespace = ''default'', Text = str, FuzzyContext = All_Context\<rparr>"

section \<open>What the loops scan\<close>

text \<open>
  The body of the loop of \<^verbatim>\<open>getFuzzyMatches\<close> on one record: the match it appends,
  if any.
\<close>

definition scanName :: "'re RegexpLib \<Rightarrow> 're \<Rightarrow> 'x Raw \<Rightarrow> match option" where
  "scanName lib re raw =
     map_option (\<lambda>m. \<lparr>val = fuzzyName raw, pos = fst m\<rparr>) (FindStringIndex lib re (fuzzyName raw))"

section \<open>Properties of the identifier normalizer\<close>

lemma CountHyphens_le: "CountHyphens s \<le> length s"
  unfolding CountHyphens_def by (induction s) auto

text \<open>
  C9. Normalization returns the prefix unchanged when the context is job or when the
  prefix's length not counting hyphens is even; otherwise (hyphen-stripped length odd,
  context not job) the prefix is the result followed by exactly one character, the
  prefix's last one.
\<close>

theorem roundUUIDDownIfOdd_cases:
  "(context = Jobs \<or> even (length pfx - CountHyphens pfx)
      \<longrightarrow> roundUUIDDownIfOdd pfx context = pfx) \<and>
   (context \<noteq> Jobs \<and> odd (length pfx - CountHyphens pfx)
      \<longrightarrow> pfx = roundUUIDDownIfOdd pfx context @ [last pfx] \<and>
          roundUUIDDownIfOdd pfx context = butlast pfx)"
proof -
  have ne: "pfx \<noteq> []" if "odd (length pfx - CountHyphens pfx)"
    using that by (cases pfx) auto
  have bl: "take (length pfx - 1) pfx = butlast pfx"
    by (simp add: butlast_conv_take)
  show ?thesis
    unfolding roundUUIDDownIfOdd_def Let_def bl
    using ne by (auto simp: even_iff_mod_2_eq_zero)
qed

theorem roundUUIDDownIfOdd_cases_witness:
  "roundUUIDDownIfOdd ''e3671fa4-215'' Nodes = ''e3671fa4-21'' \<and>
   roundUUIDDownIfOdd ''e3671fa4-215'' Jobs = ''e3671fa4-215'' \<and>
   roundUUIDDownIfOdd ''e3671fa4-21'' Nodes = ''e3671fa4-21''"
proof -
  have odd_len: "Nodes \<noteq> Jobs \<and> odd (length ''e3671fa4-215'' - CountHyphens ''e3671fa4-215'')"
    by (simp add: CountHyphens_def Nodes_def Jobs_def)
  have even_len: "even (length ''e3671fa4-21'' - CountHyphens ''e3671fa4-21'')"
    by (simp add: CountHyphens_def)
  have "roundUUIDDownIfOdd ''e3671fa4-215'' Nodes = butlast ''e3671fa4-215''"
    using roundUUIDDownIfOdd_cases [of Nodes "''e3671fa4-215''"] odd_len by blast
  moreover have "roundUUIDDownIfOdd ''e3671fa4-215'' Jobs = ''e3671fa4-215''"
    using roundUUIDDownIfOdd_cases [of Jobs "''e3671fa4-215''"] by blast
  moreover have "roundUUIDDownIfOdd ''e3671fa4-21'' Nodes = ''e3671fa4-21''"
    using roundUUIDDownIfOdd_cases [of Nodes "''e3671fa4-21''"] even_len by blast
  ultimately show ?thesis by simp
qed

section \<open>The two collectors, loop-free\<close>

lemma Next_Nil: "Next [] = (None, [])" by (simp add: Next_def)
lemma Next_Cons: "Next (x # xs) = (Some x, xs)" by (simp add: Next_def)

lemma fst_Next_drop: "(fst (Next (drop n xs)) \<noteq> None) = (n < length xs)"
proof (cases "n < length xs")
  case True
  then have "drop n xs \<noteq> []" by simp
  then show ?thesis using True by (cases "drop n xs") (auto simp: Next_def)
next
  case False
  then show ?thesis by (simp add: Next_def)
qed

declare getMatches_loop.simps [simp del]
declare getFuzzyMatches_loop.simps [simp del]

lemma getMatches_loop_eq:
  "getMatches_loop gem pfx i iter matches =
     (matches @ filter (\<lambda>ident. HasPrefix ident pfx)
                  (List.map_filter (matchID gem) (take (truncateLimit - i) iter)),
      drop (truncateLimit - i) iter)"
proof (induction gem pfx i iter matches rule: getMatches_loop.induct)
  case (1 gem pfx i iter matches)
  show ?case
  proof (cases "i < truncateLimit")
    case False
    then show ?thesis
      by (subst getMatches_loop.simps) (simp add: List.map_filter_simps)
  next
    case lt: True
    then obtain d where d: "truncateLimit - i = Suc d" "truncateLimit - (i + 1) = d"
      by (cases "truncateLimit - i") auto
    show ?thesis
    proof (cases iter)
      case Nil
      then show ?thesis using lt
        by (subst getMatches_loop.simps) (simp add: Next_Nil List.map_filter_simps)
    next
      case (Cons raw rest)
      have nx: "Next iter = (Some raw, rest)" using Cons by (simp add: Next_Cons)
      show ?thesis
      proof (cases "matchID gem raw")
        case None
        from "1.IH"(1) [OF lt nx [symmetric] refl None]
        show ?thesis using lt Cons None d
          by (subst getMatches_loop.simps) (simp add: Next_Cons List.map_filter_simps)
      next
        case (Some ident)
        show ?thesis
        proof (cases "HasPrefix ident pfx")
          case True
          from "1.IH"(3) [OF lt nx [symmetric] refl Some] True
          show ?thesis using lt Cons Some d
            by (subst getMatches_loop.simps) (simp add: Next_Cons List.map_filter_simps)
        next
          case False
          from "1.IH"(2) [OF lt nx [symmetric] refl Some] False
          show ?thesis using lt Cons Some d
            by (subst getMatches_loop.simps) (simp add: Next_Cons List.map_filter_simps)
        qed
      qed
    qed
  qed
qed


lemma getMatches_eq:
  "getMatches gem iter pfx =
     (filter (\<lambda>ident. HasPrefix ident pfx) (List.map_filter (matchID gem) (take truncateLimit iter)),
      truncateLimit < length iter)"
  by (simp add: getMatches_def getMatches_loop_eq fst_Next_drop del: not_None_eq)

lemma scanName_None: "FindStringIndex lib re (fuzzyName raw) = None \<Longrightarrow> scanName lib re raw = None"
  by (simp add: scanName_def)

lemma scanName_Some:
  "FindStringIndex lib re (fuzzyName raw) = Some m
     \<Longrightarrow> scanName lib re raw = Some \<lparr>val = fuzzyName raw, pos = fst m\<rparr>"
  by (simp add: scanName_def)

lemma getFuzzyMatches_loop_eq:
  "getFuzzyMatches_loop lib re i iter matches =
     (matches @ List.map_filter (scanName lib re) (take (truncateLimit - i) iter),
      drop (truncateLimit - i) iter)"
proof (induction lib re i iter matches rule: getFuzzyMatches_loop.induct)
  case (1 lib re i iter matches)
  show ?case
  proof (cases "i < truncateLimit")
    case False
    then show ?thesis
      by (subst getFuzzyMatches_loop.simps) (simp add: List.map_filter_simps)
  next
    case lt: True
    then obtain d where d: "truncateLimit - i = Suc d" "truncateLimit - (i + 1) = d"
      by (cases "truncateLimit - i") auto
    show ?thesis
    proof (cases iter)
      case Nil
      then show ?thesis using lt
        by (subst getFuzzyMatches_loop.simps) (simp add: Next_Nil List.map_filter_simps)
    next
      case (Cons raw rest)
      have nx: "Next iter = (Some raw, rest)" using Cons by (simp add: Next_Cons)
      show ?thesis
      proof (cases "FindStringIndex lib re (fuzzyName raw)")
        case None
        from "1.IH"(1) [OF lt nx [symmetric] refl refl None]
        show ?thesis using lt Cons None d
          by (subst getFuzzyMatches_loop.simps)
            (simp add: Next_Cons List.map_filter_simps scanName_None scanName_Some)
      next
        case (Some m)
        from "1.IH"(2) [OF lt nx [symmetric] refl refl Some]
        show ?thesis using lt Cons Some d
          by (subst getFuzzyMatches_loop.simps)
            (simp add: Next_Cons List.map_filter_simps scanName_None scanName_Some)
      qed
    qed
  qed
qed

lemma getFuzzyMatches_eq:
  "getFuzzyMatches lib iter re =
     (map val (sort_Slice (List.map_filter (scanName lib re) (take truncateLimit iter)) match_less),
      truncateLimit < length iter)"
  by (simp add: getFuzzyMatches_def getFuzzyMatches_loop_eq fst_Next_drop Let_def del: not_None_eq)

end
